theory Spec2Isabelle
  imports Main "HOL-Library.Word"
begin

section \<open>Data model of \<^verbatim>\<open>src/lib/request.ts\<close>\<close>

text \<open>
  A Node \<^verbatim>\<open>Buffer\<close> is a list of bytes. The text produced by
  \<^verbatim>\<open>Buffer.toString("utf8")\<close> is a list of code points; the decoder itself belongs to
  Node and is a parameter \<open>decode\<close> of the model. Error objects are represented by their
  \<^verbatim>\<open>message\<close>. An optional property (\<^verbatim>\<open>x?: T\<close>) is an \<open>option\<close>, with \<open>None\<close> for
  \<^verbatim>\<open>undefined\<close>.

  The millisecond readings stored in \<^verbatim>\<open>Timings\<close> come from \<^verbatim>\<open>getInterval\<close>, which ends in
  \<^verbatim>\<open>Math.round\<close>: they are integer valued, and are modelled as \<open>int\<close>. The checkpoint
  \<^verbatim>\<open>end\<close> is the field \<open>end'\<close>.
\<close>

type_synonym buffer = "8 word list"
type_synonym js_string = "nat list"

record Timings =
  lookup :: "int option"
  socket :: "int option"
  connect :: "int option"
  response :: "int option"
  end' :: "int option"

record TimingPhases =
  wait :: "int option"
  dns :: "int option"
  tcp :: "int option"
  firstByte :: "int option"
  download :: "int option"
  total :: "int option"

text \<open>\<^verbatim>\<open>subtract\<close> (lines 65-70): the difference when both arguments are numbers.\<close>

fun subtract :: "int option \<Rightarrow> int option \<Rightarrow> int option" where
  "subtract (Some a) (Some b) = Some (a - b)"
| "subtract _ _ = None"

text \<open>\<^verbatim>\<open>makeTimingPhases\<close> (lines 72-81).\<close>

definition makeTimingPhases :: "Timings \<Rightarrow> TimingPhases" where
  "makeTimingPhases timings =
     \<lparr> wait = socket timings,
       dns = subtract (lookup timings) (socket timings),
       tcp = subtract (connect timings) (lookup timings),
       firstByte = subtract (response timings) (connect timings),
       download = subtract (end' timings) (response timings),
       total = end' timings \<rparr>"

section \<open>Request options\<close>

text \<open>
  \<^verbatim>\<open>ServiceClientRequestOptions\<close> with the properties the execution reads. The code asks
  of \<^verbatim>\<open>pathname\<close>, \<^verbatim>\<open>path\<close> and \<^verbatim>\<open>query\<close> whether the key is in the object
  (\<^verbatim>\<open>"path" in options\<close>), and the spread at line 88 copies every key that \<^verbatim>\<open>options\<close> has,
  also one whose value is \<^verbatim>\<open>undefined\<close>. These four properties therefore have three
  states: \<open>Absent\<close> (no such key), \<open>Present None\<close> (the key with the value \<^verbatim>\<open>undefined\<close>) and
  \<open>Present (Some v)\<close>. The other properties are only read, and reading an absent key
  gives \<^verbatim>\<open>undefined\<close>, so \<open>None\<close> stands for both there. The request body
  (\<^verbatim>\<open>options.body\<close>, written to the transport at lines 241-244) takes no part in what
  follows and is left out. A query object is its list of keys and values;
  \<^verbatim>\<open>querystring.stringify\<close> belongs to Node and is the parameter \<open>stringify\<close>, applied to
  the value of \<^verbatim>\<open>options.query\<close>, which may be \<^verbatim>\<open>undefined\<close>.
\<close>

type_synonym query_object = "(string \<times> string) list"

datatype 'a property = Absent | Present "'a option"

text \<open>Reading a property (\<^verbatim>\<open>options.k\<close>), and a string in a template literal.\<close>

fun read_property :: "'a property \<Rightarrow> 'a option" where
  "read_property Absent = None"
| "read_property (Present v) = v"

definition template_string :: "string option \<Rightarrow> string" where
  "template_string v = (case v of None \<Rightarrow> ''undefined'' | Some str \<Rightarrow> str)"

record ServiceClientRequestOptions =
  protocol :: "string property"
  host :: "string option"
  path :: "string property"
  timeout :: "int option"
  pathname :: "string property"
  query :: "query_object property"
  timing :: bool
  readTimeout :: "int option"

definition DEFAULT_READ_TIMEOUT :: int where
  "DEFAULT_READ_TIMEOUT = 2000"

definition DEFAULT_CONNECTION_TIMEOUT :: int where
  "DEFAULT_CONNECTION_TIMEOUT = 1000"

text \<open>
  Lines 86-89: \<^verbatim>\<open>{ protocol: "https:", ...options }\<close>. A protocol key of \<^verbatim>\<open>options\<close>
  replaces the default, whatever its value.
\<close>

definition default_protocol :: "ServiceClientRequestOptions \<Rightarrow> ServiceClientRequestOptions" where
  "default_protocol options =
     (case protocol options of
        Absent \<Rightarrow> options\<lparr>protocol := Present (Some ''https:'')\<rparr>
      | Present _ \<Rightarrow> options)"

text \<open>
  Lines 91-99: with the key \<^verbatim>\<open>pathname\<close> in the options and the key \<^verbatim>\<open>path\<close> not, the path
  is set from \<^verbatim>\<open>pathname\<close>, and from \<^verbatim>\<open>query\<close> when that key is in the options.
\<close>

definition resolve_path ::
  "(query_object option \<Rightarrow> string) \<Rightarrow> ServiceClientRequestOptions \<Rightarrow>
   ServiceClientRequestOptions" where
  "resolve_path stringify options =
     (if pathname options \<noteq> Absent \<and> path options = Absent then
        (if query options \<noteq> Absent then
           options\<lparr>path := Present (Some
             (template_string (read_property (pathname options)) @ ''?'' @
              stringify (read_property (query options))))\<rparr>
         else options\<lparr>path := Present (read_property (pathname options))\<rparr>)
      else options)"

text \<open>
  The same step in the earlier revision of the file (\<^verbatim>\<open>src/unnamed/part_000\<close>, lines 87-97):
  the question mark is added only in front of a non-empty query string.
\<close>

definition resolve_path_prior ::
  "(query_object option \<Rightarrow> string) \<Rightarrow> ServiceClientRequestOptions \<Rightarrow>
   ServiceClientRequestOptions" where
  "resolve_path_prior stringify options =
     (if pathname options \<noteq> Absent \<and> path options = Absent then
        (if query options \<noteq> Absent then
           (let qs = stringify (read_property (query options));
                qs' = (if qs \<noteq> [] then ''?'' @ qs else qs)
            in options\<lparr>path := Present (Some
                 (template_string (read_property (pathname options)) @ qs'))\<rparr>)
         else options\<lparr>path := Present (read_property (pathname options))\<rparr>)
      else options)"

text \<open>Lines 102 and 107: \<^verbatim>\<open>options.timeout || DEFAULT\<close>; zero and undefined are falsy.\<close>

definition connectionTimeout :: "ServiceClientRequestOptions \<Rightarrow> int" where
  "connectionTimeout options =
     (case timeout options of
        None \<Rightarrow> DEFAULT_CONNECTION_TIMEOUT
      | Some n \<Rightarrow> if n = 0 then DEFAULT_CONNECTION_TIMEOUT else n)"

definition readTimeout_ms :: "ServiceClientRequestOptions \<Rightarrow> int" where
  "readTimeout_ms options =
     (case readTimeout options of
        None \<Rightarrow> DEFAULT_READ_TIMEOUT
      | Some n \<Rightarrow> if n = 0 then DEFAULT_READ_TIMEOUT else n)"

datatype transport = HttpRequest | HttpsRequest

definition httpRequestFn :: "ServiceClientRequestOptions \<Rightarrow> transport" where
  "httpRequestFn options =
     (if protocol options = Present (Some ''https:'') then HttpsRequest else HttpRequest)"

subsection \<open>Template literals\<close>

text \<open>
  \<^verbatim>\<open>`${n}`\<close> for an integer \<open>n\<close> is its decimal numeral, and \<^verbatim>\<open>`${options.host}`\<close> is the
  host, or the word \<^verbatim>\<open>undefined\<close> when none was given.
\<close>

fun digits :: "nat \<Rightarrow> string" where
  "digits n =
     (if n < 10 then [''0123456789'' ! n]
      else digits (n div 10) @ [''0123456789'' ! (n mod 10)])"

declare digits.simps [simp del]

definition number_toString :: "int \<Rightarrow> string" where
  "number_toString n = (if n < 0 then CHR ''-'' # digits (nat (- n)) else digits (nat n))"

definition host_toString :: "ServiceClientRequestOptions \<Rightarrow> string" where
  "host_toString options = template_string (host options)"

definition connection_timeout_message :: "ServiceClientRequestOptions \<Rightarrow> string" where
  "connection_timeout_message options =
     ''Could not connect within '' @ number_toString (connectionTimeout options) @
     '' ms to '' @ host_toString options"

definition read_timeout_message :: "ServiceClientRequestOptions \<Rightarrow> string" where
  "read_timeout_message options =
     ''Failed to read data within '' @ number_toString (readTimeout_ms options) @
     '' ms from '' @ host_toString options"

section \<open>Results, faults and the promise\<close>

text \<open>
  The execution allocates one \<^verbatim>\<open>Timings\<close> object (line 117). \<^verbatim>\<open>ServiceClientResponse.timings\<close>
  (line 233) and \<^verbatim>\<open>ErrorWithTimings.timings\<close> (line 127) are references to that object, not
  copies: a reference is the value \<open>TimingsRef\<close>, and what it points to is read from the
  state of the execution (\<open>timings_obj\<close> below). \<^verbatim>\<open>makeTimingPhases\<close> returns a new object
  at every call, so \<open>timingPhases\<close> is held by value.
\<close>

datatype timings_ref = TimingsRef

type_synonym IncomingHttpHeaders = "(string \<times> string) list"

record ServiceClientResponse =
  statusCode :: int
  headers :: "IncomingHttpHeaders option"
  body :: js_string
  request_options :: ServiceClientRequestOptions
  timings :: "timings_ref option"
  timingPhases :: "TimingPhases option"

datatype fault =
    PlainError string
  | ErrorWithTimings string timings_ref TimingPhases

datatype outcome = Fulfilled ServiceClientResponse | Rejected fault

text \<open>What the execution does to the transport and to the promise, in order.\<close>

datatype effect =
    SocketSetTimeout int
  | RequestSetTimeout int
  | SocketDestroy
  | ResolveCall ServiceClientResponse
  | RejectCall fault

section \<open>The execution\<close>

text \<open>
  \<^verbatim>\<open>IncomingMessage\<close> as the response handler reads it (line 196), and the variables the
  handler closes over for each response: the stream handed to the aggregation, the chunks
  and the running length (lines 197-208).
\<close>

record IncomingMessage =
  msg_headers :: "IncomingHttpHeaders option"
  msg_statusCode :: "int option"

datatype stream = ResponseStream | UnzipStream

record response_closure =
  message :: IncomingMessage
  bodyStream :: stream
  chunks :: "buffer list"
  bufferLength :: nat

text \<open>
  The state of one call of \<^verbatim>\<open>request\<close>: the shared Timings object, the promise, the
  listeners that are registered, one closure for each response event, and the effects so
  far. \<^verbatim>\<open>once\<close> listeners and the callbacks given to \<^verbatim>\<open>setTimeout\<close> (one-time listeners of
  the timeout event) are flags, cleared when they run. \<^verbatim>\<open>setReadTimeout\<close> is called from two
  places that both sit under a \<^verbatim>\<open>once\<close> listener, so one flag is enough for its callback.
\<close>

record execution =
  timings_obj :: Timings
  settled :: "outcome option"
  socket_listener :: bool
  lookup_listener :: bool
  connect_listener :: bool
  connection_timer :: bool
  read_timer :: bool
  responses :: "response_closure list"
  effects :: "effect list"

text \<open>
  The events the transport delivers. Those whose handler reads the clock carry the
  reading of \<^verbatim>\<open>getInterval(startTime)\<close> at that moment. Stream events name the response
  (its position among the response events) and the stream of it they occur on.
\<close>

datatype event =
    ReqSocket bool int
  | SockLookup int
  | SockConnect int
  | ConnectionTimeout
  | ReadTimeout
  | ReqResponse IncomingMessage int
  | ReqError string
  | StreamData nat stream buffer
  | StreamEnd nat stream int
  | StreamError nat stream string

text \<open>A promise settles at the first call of \<^verbatim>\<open>resolve\<close> or \<^verbatim>\<open>reject\<close>; later calls do nothing.\<close>

definition resolve :: "ServiceClientResponse \<Rightarrow> execution \<Rightarrow> execution" where
  "resolve r st =
     st\<lparr>settled := (case settled st of None \<Rightarrow> Some (Fulfilled r) | Some out \<Rightarrow> Some out),
        effects := effects st @ [ResolveCall r]\<rparr>"

definition originalReject :: "fault \<Rightarrow> execution \<Rightarrow> execution" where
  "originalReject f st =
     st\<lparr>settled := (case settled st of None \<Rightarrow> Some (Rejected f) | Some out \<Rightarrow> Some out),
        effects := effects st @ [RejectCall f]\<rparr>"

text \<open>
  \<^verbatim>\<open>reject\<close> (lines 114 and 124-131): \<^verbatim>\<open>originalReject\<close> itself, or with timing enabled the
  function that wraps the error with the Timings object and the phases derived from it at
  that moment. \<open>rejection\<close> is the value handed to \<^verbatim>\<open>originalReject\<close>.
\<close>

definition rejection :: "ServiceClientRequestOptions \<Rightarrow> string \<Rightarrow> Timings \<Rightarrow> fault" where
  "rejection options error t =
     (if timing options
      then ErrorWithTimings error TimingsRef (makeTimingPhases t)
      else PlainError error)"

definition reject :: "ServiceClientRequestOptions \<Rightarrow> string \<Rightarrow> execution \<Rightarrow> execution" where
  "reject options error st = originalReject (rejection options error (timings_obj st)) st"

text \<open>\<^verbatim>\<open>setReadTimeout\<close> (lines 136-145) and its callback.\<close>

definition setReadTimeout :: "ServiceClientRequestOptions \<Rightarrow> execution \<Rightarrow> execution" where
  "setReadTimeout options st =
     st\<lparr>read_timer := True,
        effects := effects st @ [RequestSetTimeout (readTimeout_ms options)]\<rparr>"

definition read_timeout_callback :: "ServiceClientRequestOptions \<Rightarrow> execution \<Rightarrow> execution" where
  "read_timeout_callback options st =
     reject options (read_timeout_message options)
       (st\<lparr>effects := effects st @ [SocketDestroy]\<rparr>)"

text \<open>The callback of the connection timer (lines 152-162).\<close>

definition connection_timeout_callback ::
  "ServiceClientRequestOptions \<Rightarrow> execution \<Rightarrow> execution" where
  "connection_timeout_callback options st =
     reject options (connection_timeout_message options)
       (st\<lparr>effects := effects st @ [SocketDestroy]\<rparr>)"

text \<open>The listener of the socket event (lines 147-183).\<close>

definition on_socket ::
  "ServiceClientRequestOptions \<Rightarrow> bool \<Rightarrow> int \<Rightarrow> execution \<Rightarrow> execution" where
  "on_socket options connecting now st =
     (let st1 = (if timing options
                 then st\<lparr>timings_obj := (timings_obj st)\<lparr>socket := Some now\<rparr>\<rparr>
                 else st)
      in if connecting then
           (let st2 = st1\<lparr>connection_timer := True,
                          effects := effects st1 @ [SocketSetTimeout (connectionTimeout options)]\<rparr>;
                st3 = (if timing options then st2\<lparr>lookup_listener := True\<rparr> else st2)
            in st3\<lparr>connect_listener := True\<rparr>)
         else
           (let st2 = (if timing options
                       then st1\<lparr>timings_obj :=
                              (timings_obj st1)\<lparr>lookup := socket (timings_obj st1),
                                                connect := socket (timings_obj st1)\<rparr>\<rparr>
                       else st1)
            in setReadTimeout options st2))"

text \<open>The listeners of the lookup and connect events (lines 164-166 and 170-175).\<close>

definition on_lookup :: "int \<Rightarrow> execution \<Rightarrow> execution" where
  "on_lookup now st = st\<lparr>timings_obj := (timings_obj st)\<lparr>lookup := Some now\<rparr>\<rparr>"

definition on_connect :: "ServiceClientRequestOptions \<Rightarrow> int \<Rightarrow> execution \<Rightarrow> execution" where
  "on_connect options now st =
     (let st1 = (if timing options
                 then st\<lparr>timings_obj := (timings_obj st)\<lparr>connect := Some now\<rparr>\<rparr>
                 else st)
      in setReadTimeout options st1)"

text \<open>The listener of the response event, up to the registration of the stream listeners
  (lines 185-210).\<close>

definition content_encoding :: "IncomingMessage \<Rightarrow> string option" where
  "content_encoding msg =
     (case msg_headers msg of None \<Rightarrow> None | Some h \<Rightarrow> map_of h ''content-encoding'')"

definition select_bodyStream :: "IncomingMessage \<Rightarrow> stream" where
  "select_bodyStream msg =
     (if content_encoding msg = Some ''gzip'' \<or> content_encoding msg = Some ''deflate''
      then UnzipStream else ResponseStream)"

definition mark_response :: "int \<Rightarrow> Timings \<Rightarrow> Timings" where
  "mark_response now t =
     (let t1 = (if lookup t = None then t\<lparr>lookup := socket t\<rparr> else t);
          t2 = (if connect t1 = None then t1\<lparr>connect := socket t1\<rparr> else t1)
      in t2\<lparr>response := Some now\<rparr>)"

definition on_response ::
  "ServiceClientRequestOptions \<Rightarrow> IncomingMessage \<Rightarrow> int \<Rightarrow> execution \<Rightarrow> execution" where
  "on_response options msg now st =
     (let st1 = (if timing options
                 then st\<lparr>timings_obj := mark_response now (timings_obj st)\<rparr>
                 else st)
      in st1\<lparr>responses := responses st1 @
               [\<lparr>message = msg, bodyStream = select_bodyStream msg,
                 chunks = [], bufferLength = 0\<rparr>]\<rparr>)"

text \<open>
  \<^verbatim>\<open>Buffer.concat(list, totalLength)\<close> is the empty buffer for an empty list. Otherwise it
  copies the buffers one after the other into a buffer of \<^verbatim>\<open>totalLength\<close> bytes: what does
  not fit is cut off, what is left over is zero.
\<close>

definition Buffer_concat :: "buffer list \<Rightarrow> nat \<Rightarrow> buffer" where
  "Buffer_concat list totalLength =
     (if list = [] then []
      else take totalLength (concat list) @
           replicate (totalLength - length (concat list)) 0)"

text \<open>The listeners of the body stream (lines 212-237), for the closure at position \<open>i\<close>.\<close>

definition on_data :: "nat \<Rightarrow> buffer \<Rightarrow> execution \<Rightarrow> execution" where
  "on_data i data st =
     (let c = responses st ! i
      in st\<lparr>responses := (responses st)
              [i := c\<lparr>bufferLength := bufferLength c + length data,
                      chunks := chunks c @ [data]\<rparr>]\<rparr>)"

definition statusCode_or_0 :: "int option \<Rightarrow> int" where
  "statusCode_or_0 sc = (case sc of None \<Rightarrow> 0 | Some n \<Rightarrow> if n = 0 then 0 else n)"

definition on_end ::
  "(buffer \<Rightarrow> js_string) \<Rightarrow> ServiceClientRequestOptions \<Rightarrow> nat \<Rightarrow> int \<Rightarrow>
   execution \<Rightarrow> execution" where
  "on_end decode options i now st =
     (let c = responses st ! i;
          body_text = decode (Buffer_concat (chunks c) (bufferLength c));
          st1 = st\<lparr>responses := (responses st)[i := c\<lparr>chunks := [], bufferLength := 0\<rparr>]\<rparr>;
          serviceClientResponse =
            \<lparr>statusCode = statusCode_or_0 (msg_statusCode (message c)),
             headers = msg_headers (message c),
             body = body_text,
             request_options = options,
             timings = None,
             timingPhases = None\<rparr>
      in if timing options then
           (let st2 = st1\<lparr>timings_obj := (timings_obj st1)\<lparr>end' := Some now\<rparr>\<rparr>
            in resolve
                 (serviceClientResponse
                    \<lparr>timings := Some TimingsRef,
                     timingPhases := Some (makeTimingPhases (timings_obj st2))\<rparr>) st2)
         else resolve serviceClientResponse st1)"

text \<open>
  One event. A \<^verbatim>\<open>once\<close> listener or a timer callback runs only while it is registered. The
  stream listeners exist for the responses that have arrived; those for data and end are
  on the body stream (line 212, line 217). An error of the response itself reaches
  \<^verbatim>\<open>reject\<close> through line 201 when the body is unzipped and through line 210 otherwise;
  an error of the unzip stream reaches it through line 210.
\<close>

fun handle ::
  "(buffer \<Rightarrow> js_string) \<Rightarrow> ServiceClientRequestOptions \<Rightarrow> event \<Rightarrow>
   execution \<Rightarrow> execution" where
  "handle decode options (ReqSocket connecting now) st =
     (if socket_listener st
      then on_socket options connecting now (st\<lparr>socket_listener := False\<rparr>) else st)"
| "handle decode options (SockLookup now) st =
     (if lookup_listener st then on_lookup now (st\<lparr>lookup_listener := False\<rparr>) else st)"
| "handle decode options (SockConnect now) st =
     (if connect_listener st
      then on_connect options now (st\<lparr>connect_listener := False\<rparr>) else st)"
| "handle decode options ConnectionTimeout st =
     (if connection_timer st
      then connection_timeout_callback options (st\<lparr>connection_timer := False\<rparr>) else st)"
| "handle decode options ReadTimeout st =
     (if read_timer st
      then read_timeout_callback options (st\<lparr>read_timer := False\<rparr>) else st)"
| "handle decode options (ReqResponse msg now) st = on_response options msg now st"
| "handle decode options (ReqError error) st = reject options error st"
| "handle decode options (StreamData i s data) st =
     (if i < length (responses st) \<and> bodyStream (responses st ! i) = s
      then on_data i data st else st)"
| "handle decode options (StreamEnd i s now) st =
     (if i < length (responses st) \<and> bodyStream (responses st ! i) = s
      then on_end decode options i now st else st)"
| "handle decode options (StreamError i s error) st =
     (if i < length (responses st) \<and>
         (s = ResponseStream \<or> bodyStream (responses st ! i) = UnzipStream)
      then reject options error st else st)"

text \<open>
  \<^verbatim>\<open>request\<close> up to the return of the promise (lines 83-134, 147, 185, 240): the options
  with protocol and path filled in, and the execution with the listeners of the socket,
  response and error events registered and nothing recorded. \<open>run\<close> then delivers a
  sequence of events to it.
\<close>

definition request_options_resolved ::
  "(query_object option \<Rightarrow> string) \<Rightarrow> ServiceClientRequestOptions \<Rightarrow>
   ServiceClientRequestOptions" where
  "request_options_resolved stringify options = resolve_path stringify (default_protocol options)"

definition new_execution :: execution where
  "new_execution =
     \<lparr>timings_obj = \<lparr>lookup = None, socket = None, connect = None, response = None, end' = None\<rparr>,
      settled = None,
      socket_listener = True,
      lookup_listener = False,
      connect_listener = False,
      connection_timer = False,
      read_timer = False,
      responses = [],
      effects = []\<rparr>"

definition request ::
  "(query_object option \<Rightarrow> string) \<Rightarrow> ServiceClientRequestOptions \<Rightarrow>
   ServiceClientRequestOptions \<times> execution" where
  "request stringify options = (request_options_resolved stringify options, new_execution)"

fun run ::
  "(buffer \<Rightarrow> js_string) \<Rightarrow> ServiceClientRequestOptions \<Rightarrow> event list \<Rightarrow>
   execution \<Rightarrow> execution" where
  "run decode options [] st = st"
| "run decode options (ev # evs) st = run decode options evs (handle decode options ev st)"

text \<open>The object a reference points to, read in a given state.\<close>

definition deref :: "execution \<Rightarrow> timings_ref \<Rightarrow> Timings" where
  "deref st r = (case r of TimingsRef \<Rightarrow> timings_obj st)"

text \<open>The Timings carried by the result the promise has settled with, as a reader of
  that result finds them in state \<open>st\<close>.\<close>

definition published_timings :: "execution \<Rightarrow> Timings option" where
  "published_timings st =
     (case settled st of
        Some (Fulfilled r) \<Rightarrow> map_option (deref st) (timings r)
      | Some (Rejected (ErrorWithTimings _ ref _)) \<Rightarrow> Some (deref st ref)
      | _ \<Rightarrow> None)"

definition published_timingPhases :: "execution \<Rightarrow> TimingPhases option" where
  "published_timingPhases st =
     (case settled st of
        Some (Fulfilled r) \<Rightarrow> timingPhases r
      | Some (Rejected (ErrorWithTimings _ _ phases)) \<Rightarrow> Some phases
      | _ \<Rightarrow> None)"

section \<open>Notions of the specification\<close>

text \<open>The chunks that the data events in a sequence of events deliver on stream \<open>s\<close> of
  response \<open>i\<close>, in their order of arrival.\<close>

fun received :: "nat \<Rightarrow> stream \<Rightarrow> event list \<Rightarrow> buffer list" where
  "received i s [] = []"
| "received i s (StreamData j s' data # evs) =
     (if j = i \<and> s' = s then data # received i s evs else received i s evs)"
| "received i s (ev # evs) = received i s evs"

text \<open>
  A sequence of events that ends with the event at which the socket becomes usable for
  reading: the assignment of a reused socket, or, after the assignment of a connecting
  socket, its connect event.
\<close>

fun awaiting_connect :: "event list \<Rightarrow> bool" where
  "awaiting_connect [] = False"
| "awaiting_connect (SockConnect now # evs) = (evs = [])"
| "awaiting_connect (ev # evs) = awaiting_connect evs"

fun becomes_readable :: "event list \<Rightarrow> bool" where
  "becomes_readable [] = False"
| "becomes_readable (ReqSocket connecting now # evs) =
     (if connecting then awaiting_connect evs else evs = [])"
| "becomes_readable (ev # evs) = becomes_readable evs"

text \<open>The running length of a closure agrees with the chunks it holds.\<close>

definition counted :: "response_closure \<Rightarrow> bool" where
  "counted c = (bufferLength c = length (concat (chunks c)))"

text \<open>
  The state after a reused socket was assigned at \<open>now\<close>: the three checkpoints coincide and
  no listener is left that could overwrite them; and the phases of a published result, if
  there are any, have no DNS and no TCP time.
\<close>

definition collapsed :: "int \<Rightarrow> execution \<Rightarrow> bool" where
  "collapsed now st =
     (\<not> socket_listener st \<and> \<not> lookup_listener st \<and> \<not> connect_listener st \<and>
      socket (timings_obj st) = Some now \<and> lookup (timings_obj st) = Some now \<and>
      connect (timings_obj st) = Some now)"

definition phases_collapsed :: "execution \<Rightarrow> bool" where
  "phases_collapsed st =
     (case published_timingPhases st of
        None \<Rightarrow> True
      | Some p \<Rightarrow> dns p = Some 0 \<and> tcp p = Some 0)"

section \<open>Values for the examples\<close>

text \<open>
  A stand-in for \<^verbatim>\<open>querystring.stringify\<close> on keys and values that need no escaping. For
  \<^verbatim>\<open>undefined\<close> it gives the empty string, as Node's does for every argument that is not an
  object.
\<close>

fun join_pairs :: "query_object \<Rightarrow> string" where
  "join_pairs [] = []"
| "join_pairs [(k, v)] = k @ ''='' @ v"
| "join_pairs ((k, v) # kvs) = k @ ''='' @ v @ ''&'' @ join_pairs kvs"

definition stringify_plain :: "query_object option \<Rightarrow> string" where
  "stringify_plain q = (case q of None \<Rightarrow> [] | Some kvs \<Rightarrow> join_pairs kvs)"

definition no_options :: ServiceClientRequestOptions where
  "no_options =
     \<lparr>protocol = Absent, host = None, path = Absent, timeout = None, pathname = Absent,
      query = Absent, timing = False, readTimeout = None\<rparr>"

definition timed_options :: ServiceClientRequestOptions where
  "timed_options = no_options\<lparr>host := Some ''c.com'', timing := True, readTimeout := Some 500\<rparr>"

definition connecting_options :: ServiceClientRequestOptions where
  "connecting_options = no_options\<lparr>host := Some ''b.com'', timeout := Some 100\<rparr>"

definition hello :: buffer where
  "hello = [0x68, 0x65, 0x6C, 0x6C, 0x6F]"

definition plain_message :: IncomingMessage where
  "plain_message = \<lparr>msg_headers = Some [], msg_statusCode = Some 200\<rparr>"

definition gzip_message :: IncomingMessage where
  "gzip_message =
     \<lparr>msg_headers = Some [(''content-encoding'', ''gzip'')], msg_statusCode = Some 200\<rparr>"

definition bare_message :: IncomingMessage where
  "bare_message = \<lparr>msg_headers = None, msg_statusCode = None\<rparr>"


text \<open>
  A UTF-8 decoder to stand for \<^verbatim>\<open>Buffer.toString("utf8")\<close> in the examples: well-formed
  sequences of one to four bytes give their code point, and a byte that cannot continue or
  start a sequence gives U+FFFD. The theorems hold for every decoder.
\<close>

datatype lead_byte = Single | Lead nat nat nat nat | Invalid

definition classify :: "nat \<Rightarrow> lead_byte" where
  "classify b =
     (if b \<le> 0x7F then Single
      else if 0xC2 \<le> b \<and> b \<le> 0xDF then Lead (b mod 32) 1 0x80 0xBF
      else if 0xE0 \<le> b \<and> b \<le> 0xEF then
        Lead (b mod 16) 2 (if b = 0xE0 then 0xA0 else 0x80) (if b = 0xED then 0x9F else 0xBF)
      else if 0xF0 \<le> b \<and> b \<le> 0xF4 then
        Lead (b mod 8) 3 (if b = 0xF0 then 0x90 else 0x80) (if b = 0xF4 then 0x8F else 0xBF)
      else Invalid)"

fun utf8_points :: "(nat \<times> nat \<times> nat \<times> nat) option \<Rightarrow> nat list \<Rightarrow> nat list" where
  "utf8_points None [] = []"
| "utf8_points (Some pending) [] = [0xFFFD]"
| "utf8_points None (b # bs) =
     (case classify b of
        Single \<Rightarrow> b # utf8_points None bs
      | Lead cp needed lo hi \<Rightarrow> utf8_points (Some (cp, needed, lo, hi)) bs
      | Invalid \<Rightarrow> 0xFFFD # utf8_points None bs)"
| "utf8_points (Some (cp, needed, lo, hi)) (b # bs) =
     (if b < lo \<or> hi < b then
        0xFFFD #
        (case classify b of
           Single \<Rightarrow> b # utf8_points None bs
         | Lead cp' needed' lo' hi' \<Rightarrow> utf8_points (Some (cp', needed', lo', hi')) bs
         | Invalid \<Rightarrow> 0xFFFD # utf8_points None bs)
      else if needed = 1 then (cp * 64 + b mod 64) # utf8_points None bs
      else utf8_points (Some (cp * 64 + b mod 64, needed - 1, 0x80, 0xBF)) bs)"

definition utf8_decode :: "buffer \<Rightarrow> js_string" where
  "utf8_decode buf = utf8_points None (map unat buf)"

section \<open>Derived phases\<close>

lemma subtract_Some_iff:
  "(subtract x y = Some d) = (\<exists>a b. x = Some a \<and> y = Some b \<and> d = a - b)"
  by (cases x; cases y) auto

lemma subtract_None_iff: "(subtract x y = None) = (x = None \<or> y = None)"
  by (cases x; cases y) auto

text \<open>
  C4. For every Timings value the derived phases are \<open>wait = socket\<close>,
  \<open>dns = lookup - socket\<close>, \<open>tcp = connect - lookup\<close>, \<open>firstByte = response - connect\<close>,
  \<open>download = end - response\<close> and \<open>total = end\<close>. A phase has a value exactly when all the
  checkpoints it is computed from have one; when one of them is missing the phase is
  \<open>None\<close> (undefined), which is neither zero nor a negative number.
\<close>

theorem makeTimingPhases_consistent:
  "wait (makeTimingPhases t) = socket t \<and>
   total (makeTimingPhases t) = end' t \<and>
   (dns (makeTimingPhases t) = Some d1) =
      (\<exists>a b. lookup t = Some a \<and> socket t = Some b \<and> d1 = a - b) \<and>
   (tcp (makeTimingPhases t) = Some d2) =
      (\<exists>a b. connect t = Some a \<and> lookup t = Some b \<and> d2 = a - b) \<and>
   (firstByte (makeTimingPhases t) = Some d3) =
      (\<exists>a b. response t = Some a \<and> connect t = Some b \<and> d3 = a - b) \<and>
   (download (makeTimingPhases t) = Some d4) =
      (\<exists>a b. end' t = Some a \<and> response t = Some b \<and> d4 = a - b) \<and>
   (dns (makeTimingPhases t) = None) = (lookup t = None \<or> socket t = None) \<and>
   (tcp (makeTimingPhases t) = None) = (connect t = None \<or> lookup t = None) \<and>
   (firstByte (makeTimingPhases t) = None) = (response t = None \<or> connect t = None) \<and>
   (download (makeTimingPhases t) = None) = (end' t = None \<or> response t = None)"
  by (simp add: makeTimingPhases_def subtract_Some_iff subtract_None_iff)

section \<open>Running events\<close>

lemmas handler_defs =
  on_socket_def on_lookup_def on_connect_def on_response_def on_data_def on_end_def
  connection_timeout_callback_def read_timeout_callback_def setReadTimeout_def
  reject_def rejection_def originalReject_def resolve_def Let_def

lemmas eval_defs =
  handler_defs new_execution_def makeTimingPhases_def mark_response_def
  select_bodyStream_def content_encoding_def read_timeout_message_def
  connection_timeout_message_def readTimeout_ms_def connectionTimeout_def
  number_toString_def digits.simps host_toString_def published_timings_def
  published_timingPhases_def deref_def DEFAULT_READ_TIMEOUT_def
  DEFAULT_CONNECTION_TIMEOUT_def statusCode_or_0_def Buffer_concat_def
  no_options_def timed_options_def connecting_options_def hello_def plain_message_def
  gzip_message_def bare_message_def utf8_decode_def classify_def template_string_def
  stringify_plain_def

lemma run_append:
  "run decode options (xs @ ys) st = run decode options ys (run decode options xs st)"
  by (induction xs arbitrary: st) simp_all

lemma run_snoc:
  "run decode options (xs @ [ev]) st = handle decode options ev (run decode options xs st)"
  by (simp add: run_append)

section \<open>Read timeout\<close>

lemma pending_end_handle:
  assumes "settled st = None \<longrightarrow> end' (timings_obj st) = None"
  shows "settled (handle decode options ev st) = None \<longrightarrow>
         end' (timings_obj (handle decode options ev st)) = None"
  using assms by (cases ev) (auto simp: handler_defs mark_response_def split: option.splits)

lemma pending_end_run:
  "settled (run decode options evs new_execution) = None \<Longrightarrow>
   end' (timings_obj (run decode options evs new_execution)) = None"
proof (induction evs rule: rev_induct)
  case Nil
  then show ?case by (simp add: new_execution_def)
next
  case (snoc ev evs)
  have "settled (run decode options evs new_execution) = None \<longrightarrow>
        end' (timings_obj (run decode options evs new_execution)) = None"
    using snoc.IH by blast
  from pending_end_handle [OF this] snoc.prems show ?case
    by (simp add: run_snoc)
qed

lemma read_timer_armed_handle:
  assumes "read_timer st \<longrightarrow> RequestSetTimeout (readTimeout_ms options) \<in> set (effects st)"
  shows "read_timer (handle decode options ev st) \<longrightarrow>
         RequestSetTimeout (readTimeout_ms options) \<in> set (effects (handle decode options ev st))"
  using assms by (cases ev) (auto simp: handler_defs)

lemma read_timer_armed_run:
  "read_timer (run decode options evs new_execution) \<Longrightarrow>
   RequestSetTimeout (readTimeout_ms options) \<in> set (effects (run decode options evs new_execution))"
proof (induction evs rule: rev_induct)
  case Nil
  then show ?case by (simp add: new_execution_def)
next
  case (snoc ev evs)
  have "read_timer (run decode options evs new_execution) \<longrightarrow>
        RequestSetTimeout (readTimeout_ms options) \<in> set (effects (run decode options evs new_execution))"
    using snoc.IH by blast
  from read_timer_armed_handle [OF this] snoc.prems show ?case
    by (simp add: run_snoc)
qed

lemma read_timer_armed_by:
  "\<not> read_timer st \<Longrightarrow> read_timer (handle decode options ev st) \<Longrightarrow>
   (\<exists>now. ev = ReqSocket False now) \<or> (\<exists>now. ev = SockConnect now)"
  by (cases ev) (auto simp: handler_defs split: if_splits)

text \<open>
  The socket listener stays until a socket is assigned, the connect listener until the
  socket connects, and the read-timeout callback until it runs. The read timer is armed,
  with the read timeout, when a reused socket is assigned and when a connecting socket
  connects (lines 174 and 181).
\<close>

lemma socket_listener_kept:
  assumes "socket_listener st" and "\<And>c t. ev \<noteq> ReqSocket c t"
  shows "socket_listener (handle decode options ev st)"
  using assms by (cases ev) (auto simp: handler_defs)

lemma connect_listener_kept:
  assumes "connect_listener st" and "\<And>t. ev \<noteq> SockConnect t"
  shows "connect_listener (handle decode options ev st)"
  using assms by (cases ev) (auto simp: handler_defs)

lemma read_timer_kept:
  assumes "read_timer st" and "ev \<noteq> ReadTimeout"
  shows "read_timer (handle decode options ev st)"
  using assms by (cases ev) (auto simp: handler_defs)

lemma read_timer_kept_run:
  assumes "read_timer st" and "ReadTimeout \<notin> set evs"
  shows "read_timer (run decode options evs st)"
  using assms
proof (induction evs arbitrary: st)
  case Nil
  then show ?case by simp
next
  case (Cons ev evs)
  have ne: "ev \<noteq> ReadTimeout" and rest: "ReadTimeout \<notin> set evs"
    using Cons.prems(2) by auto
  from Cons.IH [OF read_timer_kept [OF Cons.prems(1) ne] rest] show ?case by simp
qed

lemma connect_arms_read_timer:
  assumes "connect_listener st"
  shows "read_timer (handle decode options (SockConnect now) st) \<and>
         effects (handle decode options (SockConnect now) st) =
           effects st @ [RequestSetTimeout (readTimeout_ms options)]"
  using assms by (simp add: handler_defs)

lemma reused_socket_arms_read_timer:
  assumes "socket_listener st"
  shows "read_timer (handle decode options (ReqSocket False now) st) \<and>
         effects (handle decode options (ReqSocket False now) st) =
           effects st @ [RequestSetTimeout (readTimeout_ms options)]"
  using assms by (simp add: handler_defs)

lemma connecting_socket_listens_for_connect:
  assumes "socket_listener st"
  shows "connect_listener (handle decode options (ReqSocket True now) st)"
  using assms by (simp add: handler_defs)

lemma awaiting_connect_arms:
  assumes "connect_listener st" and "awaiting_connect evs"
  shows "read_timer (run decode options evs st) \<and>
         last (effects (run decode options evs st)) = RequestSetTimeout (readTimeout_ms options)"
  using assms
proof (induction evs arbitrary: st)
  case Nil
  then show ?case by simp
next
  case (Cons ev evs)
  show ?case
  proof (cases "\<exists>now. ev = SockConnect now")
    case True
    then obtain now where ev: "ev = SockConnect now" by blast
    with Cons.prems(2) have "evs = []" by simp
    with ev connect_arms_read_timer [OF Cons.prems(1), of decode options now]
    show ?thesis by (simp del: handle.simps)
  next
    case False
    then have ne: "\<And>t. ev \<noteq> SockConnect t" by blast
    have rest: "awaiting_connect evs" using Cons.prems(2) False by (cases ev) auto
    from Cons.IH [OF connect_listener_kept [OF Cons.prems(1) ne] rest] show ?thesis by simp
  qed
qed

lemma becomes_readable_arms:
  assumes "socket_listener st" and "becomes_readable evs"
  shows "read_timer (run decode options evs st) \<and>
         last (effects (run decode options evs st)) = RequestSetTimeout (readTimeout_ms options)"
  using assms
proof (induction evs arbitrary: st)
  case Nil
  then show ?case by simp
next
  case (Cons ev evs)
  show ?case
  proof (cases "\<exists>c now. ev = ReqSocket c now")
    case True
    then obtain c now where ev: "ev = ReqSocket c now" by blast
    show ?thesis
    proof (cases c)
      case True
      with ev Cons.prems(2) have aw: "awaiting_connect evs" by simp
      have "connect_listener (handle decode options ev st)"
        using connecting_socket_listens_for_connect [OF Cons.prems(1), of decode options now] ev True
        by (simp del: handle.simps)
      from awaiting_connect_arms [OF this aw] show ?thesis by simp
    next
      case False
      with ev Cons.prems(2) have "evs = []" by simp
      with ev False reused_socket_arms_read_timer [OF Cons.prems(1), of decode options now]
      show ?thesis by (simp del: handle.simps)
    qed
  next
    case False
    then have ne: "\<And>c t. ev \<noteq> ReqSocket c t" by blast
    have rest: "becomes_readable evs" using Cons.prems(2) False by (cases ev) auto
    from Cons.IH [OF socket_listener_kept [OF Cons.prems(1) ne] rest] show ?thesis by simp
  qed
qed

text \<open>
  C3 (as amended). When a reused socket is assigned, or a connecting socket is assigned
  and later connects, the read timer is armed with the read timeout. When its callback
  then runs, for the first time and while the promise is still pending, it destroys the
  socket and then rejects the promise with
  \<^verbatim>\<open>Failed to read data within <readTimeout> ms from <host>\<close>. With timing enabled the
  fault carries the Timings object and the phases derived from it: at that moment the
  checkpoints are those recorded so far, unchanged by the callback, \<open>end\<close> is absent, and
  so are the phases \<open>download\<close> and \<open>total\<close>.
\<close>

theorem read_timeout_rejects:
  assumes "becomes_readable evs"
    and "ReadTimeout \<notin> set mid"
    and "st = run decode options (evs @ mid) new_execution"
    and "settled st = None"
    and "st' = handle decode options ReadTimeout st"
  shows "read_timer (run decode options evs new_execution) \<and>
         last (effects (run decode options evs new_execution)) =
           RequestSetTimeout (readTimeout_ms options) \<and>
         read_timer st \<and>
         effects st' = effects st @
           [SocketDestroy,
            RejectCall (rejection options (read_timeout_message options) (timings_obj st))] \<and>
         settled st' =
           Some (Rejected (rejection options (read_timeout_message options) (timings_obj st))) \<and>
         read_timeout_message options =
           ''Failed to read data within '' @ number_toString (readTimeout_ms options) @
           '' ms from '' @ host_toString options \<and>
         timings_obj st' = timings_obj st \<and>
         end' (timings_obj st') = None \<and>
         (timing options \<longrightarrow>
            published_timings st' = Some (timings_obj st) \<and>
            published_timingPhases st' = Some (makeTimingPhases (timings_obj st)) \<and>
            download (makeTimingPhases (timings_obj st)) = None \<and>
            total (makeTimingPhases (timings_obj st)) = None)"
proof -
  let ?st1 = "run decode options evs new_execution"
  have "socket_listener new_execution" by (simp add: new_execution_def)
  from becomes_readable_arms [OF this assms(1), of decode options]
  have armed1: "read_timer ?st1"
    and dur: "last (effects ?st1) = RequestSetTimeout (readTimeout_ms options)" by blast+
  have st: "st = run decode options mid ?st1" using assms(3) by (simp add: run_append)
  have armed: "read_timer st"
    unfolding st by (rule read_timer_kept_run [OF armed1 assms(2)])
  have noend: "end' (timings_obj st) = None"
    using assms(3,4) pending_end_run by simp
  have eff: "effects st' = effects st @
      [SocketDestroy,
       RejectCall (rejection options (read_timeout_message options) (timings_obj st))]"
    using armed assms(5) by (simp add: handler_defs)
  have sett: "settled st' =
      Some (Rejected (rejection options (read_timeout_message options) (timings_obj st)))"
    using armed assms(4,5) by (simp add: handler_defs)
  have same: "timings_obj st' = timings_obj st"
    using armed assms(5) by (simp add: handler_defs)
  have pub: "timing options \<longrightarrow> published_timings st' = Some (timings_obj st) \<and>
            published_timingPhases st' = Some (makeTimingPhases (timings_obj st))"
    using sett same
    by (simp add: published_timings_def published_timingPhases_def rejection_def deref_def)
  have ph: "download (makeTimingPhases (timings_obj st)) = None \<and>
            total (makeTimingPhases (timings_obj st)) = None"
    using noend by (simp add: makeTimingPhases_def)
  show ?thesis
    using armed1 dur armed eff sett same noend pub ph by (simp add: read_timeout_message_def)
qed

theorem read_timeout_rejects_witness:
  "becomes_readable [ReqSocket True 10, SockLookup 30, SockConnect 60] \<and>
   becomes_readable [ReqSocket False 10] \<and>
   read_timer (run utf8_decode timed_options [ReqSocket True 10, SockLookup 30, SockConnect 60]
     new_execution) \<and>
   read_timer (run utf8_decode timed_options [ReqSocket False 10] new_execution) \<and>
   settled (run utf8_decode timed_options
      ([ReqSocket True 10, SockLookup 30, SockConnect 60] @
       [ReqResponse bare_message 100, StreamData 0 ResponseStream hello])
      new_execution) = None \<and>
   settled (handle utf8_decode timed_options ReadTimeout
     (run utf8_decode timed_options
        ([ReqSocket True 10, SockLookup 30, SockConnect 60] @
         [ReqResponse bare_message 100, StreamData 0 ResponseStream hello])
        new_execution)) =
     Some (Rejected (ErrorWithTimings ''Failed to read data within 500 ms from c.com'' TimingsRef
       \<lparr>wait = Some 10, dns = Some 20, tcp = Some 30, firstByte = Some 40, download = None,
        total = None\<rparr>)) \<and>
   published_timings (handle utf8_decode timed_options ReadTimeout
     (run utf8_decode timed_options
        ([ReqSocket True 10, SockLookup 30, SockConnect 60] @
         [ReqResponse bare_message 100, StreamData 0 ResponseStream hello])
        new_execution)) =
     Some \<lparr>lookup = Some 30, socket = Some 10, connect = Some 60, response = Some 100,
       end' = None\<rparr> \<and>
   settled (handle utf8_decode timed_options ReadTimeout
     (run utf8_decode timed_options ([ReqSocket False 10] @ []) new_execution)) =
     Some (Rejected (ErrorWithTimings ''Failed to read data within 500 ms from c.com'' TimingsRef
       \<lparr>wait = Some 10, dns = Some 0, tcp = Some 0, firstByte = None, download = None,
        total = None\<rparr>))"
proof -
  let ?evs = "[ReqSocket True 10, SockLookup 30, SockConnect 60]"
  let ?mid = "[ReqResponse bare_message 100, StreamData 0 ResponseStream hello]"
  let ?st = "run utf8_decode timed_options (?evs @ ?mid) new_execution"
  let ?su = "run utf8_decode timed_options ([ReqSocket False 10] @ []) new_execution"
  have r1: "becomes_readable ?evs" by simp
  have r2: "becomes_readable [ReqSocket False 10]" by simp
  have m1: "ReadTimeout \<notin> set ?mid" by simp
  have m2: "ReadTimeout \<notin> set []" by simp
  have p1: "settled ?st = None" by (simp add: eval_defs)
  have p2: "settled ?su = None" by (simp add: eval_defs)
  have t: "timing timed_options" by (simp add: eval_defs)
  have tm1: "timings_obj ?st =
     \<lparr>lookup = Some 30, socket = Some 10, connect = Some 60, response = Some 100, end' = None\<rparr>"
    by (simp add: eval_defs)
  have tm2: "timings_obj ?su =
     \<lparr>lookup = Some 10, socket = Some 10, connect = Some 10, response = None, end' = None\<rparr>"
    by (simp add: eval_defs)
  have m: "read_timeout_message timed_options = ''Failed to read data within 500 ms from c.com''"
    by (simp add: eval_defs)
  note i1 = read_timeout_rejects [OF r1 m1 refl p1 refl]
  note i2 = read_timeout_rejects [OF r2 m2 refl p2 refl]
  from i1 i2 r1 r2 p1 t show ?thesis
    unfolding tm1 tm2 m
    by (simp add: rejection_def makeTimingPhases_def del: handle.simps run.simps becomes_readable.simps)
qed

text \<open>
  The fault holds the Timings object by reference, not a snapshot of it: an end event of
  the body stream that arrives after the read timeout writes the \<open>end\<close> checkpoint into
  the Timings of the published fault.
\<close>

theorem late_end_rewrites_read_timeout_fault:
  "settled (run utf8_decode timed_options
      [ReqSocket False 10, ReqResponse bare_message 100, ReadTimeout] new_execution) =
     Some (Rejected (ErrorWithTimings ''Failed to read data within 500 ms from c.com'' TimingsRef
       \<lparr>wait = Some 10, dns = Some 0, tcp = Some 0, firstByte = Some 90, download = None,
        total = None\<rparr>)) \<and>
   published_timings (run utf8_decode timed_options
      [ReqSocket False 10, ReqResponse bare_message 100, ReadTimeout] new_execution) =
     Some \<lparr>lookup = Some 10, socket = Some 10, connect = Some 10, response = Some 100,
       end' = None\<rparr> \<and>
   published_timings (run utf8_decode timed_options
      [ReqSocket False 10, ReqResponse bare_message 100, ReadTimeout,
       StreamEnd 0 ResponseStream 130] new_execution) =
     Some \<lparr>lookup = Some 10, socket = Some 10, connect = Some 10, response = Some 100,
       end' = Some 130\<rparr>"
  by (simp add: eval_defs)

text \<open>
  On a socket that has connected, the callback of the connection timer is still registered
  (see the section on the connection timeout). When it has run, the promise is already
  settled when the read-timeout callback runs.
\<close>

lemma read_timeout_after_connection_timeout:
  "settled (run utf8_decode (no_options\<lparr>host := Some ''b.com''\<rparr>)
      [ReqSocket True 10, SockConnect 60, ConnectionTimeout, ReadTimeout] new_execution) =
     Some (Rejected (PlainError ''Could not connect within 1000 ms to b.com'')) \<and>
   effects (run utf8_decode (no_options\<lparr>host := Some ''b.com''\<rparr>)
      [ReqSocket True 10, SockConnect 60, ConnectionTimeout, ReadTimeout] new_execution) =
     [SocketSetTimeout 1000, RequestSetTimeout 2000, SocketDestroy,
      RejectCall (PlainError ''Could not connect within 1000 ms to b.com''), SocketDestroy,
      RejectCall (PlainError ''Failed to read data within 2000 ms from b.com'')]"
  by (simp add: eval_defs)

section \<open>Response headers\<close>

text \<open>
  C8. With timing enabled, the response event records the \<open>response\<close> checkpoint, and sets
  \<open>lookup\<close> and \<open>connect\<close> to the \<open>socket\<close> checkpoint where they were not recorded before;
  so both are defined after the event whenever \<open>socket\<close> is.
\<close>

theorem response_marks_and_backfills:
  assumes "timing options"
    and "t = timings_obj st"
    and "t' = timings_obj (handle decode options (ReqResponse msg now) st)"
  shows "response t' = Some now \<and> socket t' = socket t \<and> end' t' = end' t \<and>
         lookup t' = (if lookup t = None then socket t else lookup t) \<and>
         connect t' = (if connect t = None then socket t else connect t) \<and>
         (socket t \<noteq> None \<longrightarrow> lookup t' \<noteq> None \<and> connect t' \<noteq> None)"
  using assms by (auto simp: handler_defs mark_response_def)

theorem response_marks_and_backfills_witness:
  "timing timed_options \<and>
   timings_obj (run utf8_decode timed_options [ReqSocket True 10] new_execution) =
     \<lparr>lookup = None, socket = Some 10, connect = None, response = None, end' = None\<rparr> \<and>
   timings_obj (handle utf8_decode timed_options (ReqResponse plain_message 100)
      (run utf8_decode timed_options [ReqSocket True 10] new_execution)) =
     \<lparr>lookup = Some 10, socket = Some 10, connect = Some 10, response = Some 100, end' = None\<rparr>"
proof -
  have t: "timing timed_options" by (simp add: eval_defs)
  have before: "timings_obj (run utf8_decode timed_options [ReqSocket True 10] new_execution) =
     \<lparr>lookup = None, socket = Some 10, connect = None, response = None, end' = None\<rparr>"
    by (simp add: eval_defs)
  note inst = response_marks_and_backfills [OF t refl refl,
      of utf8_decode plain_message 100 "run utf8_decode timed_options [ReqSocket True 10] new_execution"]
  from inst t before show ?thesis
    by (simp add: Timings.equality del: handle.simps run.simps)
qed

section \<open>Reused sockets\<close>

lemma no_socket_yet_handle:
  assumes "socket_listener st" "\<not> lookup_listener st" "\<not> connect_listener st"
    and "\<And>c t. ev \<noteq> ReqSocket c t"
  shows "socket_listener (handle decode options ev st) \<and>
         \<not> lookup_listener (handle decode options ev st) \<and>
         \<not> connect_listener (handle decode options ev st)"
  using assms by (cases ev) (auto simp: handler_defs)

lemma no_socket_yet_run:
  assumes "socket_listener st" "\<not> lookup_listener st" "\<not> connect_listener st"
    and "\<And>c t. ReqSocket c t \<notin> set evs"
  shows "socket_listener (run decode options evs st) \<and>
         \<not> lookup_listener (run decode options evs st) \<and>
         \<not> connect_listener (run decode options evs st)"
  using assms
proof (induction evs arbitrary: st)
  case Nil
  then show ?case by simp
next
  case (Cons ev evs)
  have ne: "\<And>c t. ev \<noteq> ReqSocket c t" using Cons.prems(4) by auto
  have rest: "\<And>c t. ReqSocket c t \<notin> set evs" using Cons.prems(4) by auto
  from no_socket_yet_handle [OF Cons.prems(1-3) ne]
  have "socket_listener (handle decode options ev st)"
    "\<not> lookup_listener (handle decode options ev st)"
    "\<not> connect_listener (handle decode options ev st)" by blast+
  from Cons.IH [OF this rest] show ?case by simp
qed

lemma collapsed_handle:
  "collapsed now st \<Longrightarrow> collapsed now (handle decode options ev st)"
  by (cases ev) (auto simp: collapsed_def handler_defs mark_response_def)

lemma phases_collapsed_handle:
  "timing options \<Longrightarrow> collapsed now st \<Longrightarrow> phases_collapsed st \<Longrightarrow> phases_collapsed (handle decode options ev st)"
  by (cases ev; cases "settled st")
     (auto simp: collapsed_def phases_collapsed_def published_timingPhases_def handler_defs
        mark_response_def makeTimingPhases_def)

lemma collapsed_run:
  "timing options \<Longrightarrow> collapsed now st \<Longrightarrow> phases_collapsed st \<Longrightarrow>
   collapsed now (run decode options evs st) \<and> phases_collapsed (run decode options evs st)"
  by (induction evs arbitrary: st) (simp_all add: collapsed_handle phases_collapsed_handle)

lemma reused_socket_collapsed:
  assumes "timing options" "socket_listener st" "\<not> lookup_listener st" "\<not> connect_listener st"
  shows "collapsed now (handle decode options (ReqSocket False now) st)"
  using assms by (simp add: collapsed_def handler_defs)

lemma reused_socket_settled:
  "settled (handle decode options (ReqSocket c now) st) = settled st"
  by (simp add: handler_defs)

text \<open>
  C5. With timing enabled, when the socket assigned to the request is a reused one
  (\<^verbatim>\<open>socket.connecting\<close> is false), then whatever events follow, the recorded timings have
  \<open>lookup = connect = socket\<close>, the phases derived from them have \<open>dns = 0\<close> and \<open>tcp = 0\<close>,
  and so have the phases of any result published from then on.
\<close>

theorem reused_socket_timings:
  assumes "timing options"
    and "\<And>c t. ReqSocket c t \<notin> set pre"
    and "st = run decode options (pre @ ReqSocket False now # post) new_execution"
  shows "socket (timings_obj st) = Some now \<and>
         lookup (timings_obj st) = Some now \<and>
         connect (timings_obj st) = Some now \<and>
         dns (makeTimingPhases (timings_obj st)) = Some 0 \<and>
         tcp (makeTimingPhases (timings_obj st)) = Some 0 \<and>
         (settled (run decode options pre new_execution) = None \<longrightarrow>
            (\<forall>p. published_timingPhases st = Some p \<longrightarrow> dns p = Some 0 \<and> tcp p = Some 0))"
proof -
  let ?s0 = "run decode options pre new_execution"
  let ?s1 = "handle decode options (ReqSocket False now) ?s0"
  have st: "st = run decode options post ?s1"
    using assms(3) by (simp add: run_append)
  have "socket_listener ?s0 \<and> \<not> lookup_listener ?s0 \<and> \<not> connect_listener ?s0"
    by (rule no_socket_yet_run) (simp_all add: new_execution_def assms(2))
  then have c1: "collapsed now ?s1"
    using assms(1) reused_socket_collapsed by blast
  then have c: "collapsed now st"
    unfolding st by (induction post arbitrary: st rule: rev_induct) (simp_all add: run_snoc collapsed_handle)
  have ph: "phases_collapsed st" if "settled ?s0 = None"
  proof -
    have "settled ?s1 = settled ?s0" by (rule reused_socket_settled)
    with that have "settled ?s1 = None" by simp
    then have "phases_collapsed ?s1"
      by (simp add: phases_collapsed_def published_timingPhases_def)
    with collapsed_run [OF assms(1) c1] show ?thesis unfolding st by blast
  qed
  show ?thesis
    using c ph by (auto simp: collapsed_def phases_collapsed_def makeTimingPhases_def)
qed

theorem reused_socket_timings_witness:
  "timing timed_options \<and>
   timings_obj (run utf8_decode timed_options
      ([] @ ReqSocket False 10 #
       [ReqResponse plain_message 30, StreamData 0 ResponseStream hello,
        StreamEnd 0 ResponseStream 60]) new_execution) =
     \<lparr>lookup = Some 10, socket = Some 10, connect = Some 10, response = Some 30,
      end' = Some 60\<rparr> \<and>
   published_timingPhases (run utf8_decode timed_options
      ([] @ ReqSocket False 10 #
       [ReqResponse plain_message 30, StreamData 0 ResponseStream hello,
        StreamEnd 0 ResponseStream 60]) new_execution) =
     Some \<lparr>wait = Some 10, dns = Some 0, tcp = Some 0, firstByte = Some 20,
       download = Some 30, total = Some 60\<rparr>"
proof -
  have t: "timing timed_options" by (simp add: eval_defs)
  have none: "\<And>c t. ReqSocket c t \<notin> set []" by simp
  note inst = reused_socket_timings [OF t none refl, of utf8_decode 10
      "[ReqResponse plain_message 30, StreamData 0 ResponseStream hello,
        StreamEnd 0 ResponseStream 60]"]
  have ev: "timings_obj (run utf8_decode timed_options
      ([] @ ReqSocket False 10 #
       [ReqResponse plain_message 30, StreamData 0 ResponseStream hello,
        StreamEnd 0 ResponseStream 60]) new_execution) =
     \<lparr>lookup = Some 10, socket = Some 10, connect = Some 10, response = Some 30,
      end' = Some 60\<rparr>"
    by (simp add: eval_defs)
  have ph: "published_timingPhases (run utf8_decode timed_options
      ([] @ ReqSocket False 10 #
       [ReqResponse plain_message 30, StreamData 0 ResponseStream hello,
        StreamEnd 0 ResponseStream 60]) new_execution) =
     Some \<lparr>wait = Some 10, dns = Some 0, tcp = Some 0, firstByte = Some 20,
       download = Some 30, total = Some 60\<rparr>"
    by (simp add: eval_defs)
  from inst t ev ph show ?thesis by blast
qed

section \<open>Body aggregation\<close>

lemma Buffer_concat_exact: "Buffer_concat cs (length (concat cs)) = concat cs"
  by (simp add: Buffer_concat_def)

lemma responses_resolve [simp]: "responses (resolve r st) = responses st"
  by (simp add: resolve_def)

lemma responses_reject [simp]: "responses (reject options e st) = responses st"
  by (simp add: reject_def originalReject_def)

lemma closure_handle:
  assumes "i < length (responses st)" and "\<And>t. ev \<noteq> StreamEnd i (bodyStream (responses st ! i)) t"
  shows "i < length (responses (handle decode options ev st)) \<and>
         responses (handle decode options ev st) ! i =
           (case ev of
              StreamData j s d \<Rightarrow>
                if j = i \<and> s = bodyStream (responses st ! i)
                then (responses st ! i)\<lparr>bufferLength := bufferLength (responses st ! i) + length d,
                                        chunks := chunks (responses st ! i) @ [d]\<rparr>
                else responses st ! i
            | _ \<Rightarrow> responses st ! i)"
  using assms
  by (cases ev) (auto simp: handler_defs nth_append nth_list_update)

lemma aggregate:
  assumes "i < length (responses st)"
    and "bodyStream (responses st ! i) = s"
    and "counted (responses st ! i)"
    and "\<And>t. StreamEnd i s t \<notin> set evs"
  shows "i < length (responses (run decode options evs st)) \<and>
         bodyStream (responses (run decode options evs st) ! i) = s \<and>
         message (responses (run decode options evs st) ! i) = message (responses st ! i) \<and>
         chunks (responses (run decode options evs st) ! i) =
           chunks (responses st ! i) @ received i s evs \<and>
         counted (responses (run decode options evs st) ! i)"
  using assms
proof (induction evs arbitrary: st)
  case Nil
  then show ?case by simp
next
  case (Cons ev evs)
  let ?st = "handle decode options ev st"
  have ne: "\<And>t. ev \<noteq> StreamEnd i (bodyStream (responses st ! i)) t"
    using Cons.prems(2,4) by auto
  have rest: "\<And>t. StreamEnd i s t \<notin> set evs" using Cons.prems(4) by auto
  note step = closure_handle [OF Cons.prems(1) ne, of decode options]
  have len: "i < length (responses ?st)" using step by blast
  have bs: "bodyStream (responses ?st ! i) = s"
    using step Cons.prems(2) by (cases ev) (auto split: if_splits)
  have msg: "message (responses ?st ! i) = message (responses st ! i)"
    using step by (cases ev) (auto split: if_splits)
  have ch: "chunks (responses ?st ! i) = chunks (responses st ! i) @ received i s [ev]"
    using step Cons.prems(2) by (cases ev) (auto split: if_splits)
  have cnt: "counted (responses ?st ! i)"
    using step Cons.prems(2,3) by (cases ev) (auto simp: counted_def split: if_splits)
  have rec: "received i s (ev # evs) = received i s [ev] @ received i s evs"
    by (cases ev) auto
  from Cons.IH [OF len bs cnt rest] msg ch rec show ?case by simp
qed

lemma end_resolves:
  assumes "i < length (responses st)"
    and "bodyStream (responses st ! i) = s"
    and "counted (responses st ! i)"
    and "settled st = None"
  shows "\<exists>r. settled (handle decode options (StreamEnd i s now) st) = Some (Fulfilled r) \<and>
             body r = decode (concat (chunks (responses st ! i))) \<and>
             statusCode r = statusCode_or_0 (msg_statusCode (message (responses st ! i))) \<and>
             headers r = msg_headers (message (responses st ! i)) \<and>
             request_options r = options"
  using assms by (simp add: handler_defs counted_def Buffer_concat_exact)

lemma response_closure_new:
  "length (responses (handle decode options (ReqResponse msg now) st)) = Suc (length (responses st)) \<and>
   responses (handle decode options (ReqResponse msg now) st) ! length (responses st) =
     \<lparr>message = msg, bodyStream = select_bodyStream msg, chunks = [], bufferLength = 0\<rparr>"
  by (simp add: handler_defs)

lemma aggregate_response:
  assumes "i = length (responses st0)"
    and "s = select_bodyStream msg"
    and "\<And>t. StreamEnd i s t \<notin> set mid"
    and "st1 = run decode options (ReqResponse msg t0 # mid) st0"
  shows "i < length (responses st1) \<and> bodyStream (responses st1 ! i) = s \<and>
         message (responses st1 ! i) = msg \<and>
         chunks (responses st1 ! i) = received i s mid \<and>
         counted (responses st1 ! i)"
proof -
  let ?st = "handle decode options (ReqResponse msg t0) st0"
  note new = response_closure_new [of decode options msg t0 st0]
  have len: "i < length (responses ?st)" using new assms(1) by simp
  have bs: "bodyStream (responses ?st ! i) = s" using new assms(1,2) by simp
  have cnt: "counted (responses ?st ! i)" using new assms(1) by (simp add: counted_def)
  have st1: "st1 = run decode options mid ?st" using assms(4) by simp
  from aggregate [OF len bs cnt assms(3), of decode options] new assms(1) show ?thesis
    unfolding st1 by simp
qed

text \<open>
  C9. When the body stream of a response ends and the promise is still pending, the promise
  is fulfilled with a body that is the UTF-8 decoding of the concatenation of all chunks
  received on that stream, in their order of arrival; the running length is the length of
  that concatenation. The decoder is applied once, to the whole, so how the bytes of a
  code point are spread over chunks makes no difference.
\<close>

theorem body_is_decoded_concatenation:
  assumes "i = length (responses st0)"
    and "s = select_bodyStream msg"
    and "\<And>t. StreamEnd i s t \<notin> set mid"
    and "st1 = run decode options (ReqResponse msg t0 # mid) st0"
    and "settled st1 = None"
  shows "bufferLength (responses st1 ! i) = length (concat (received i s mid)) \<and>
         (\<exists>r. settled (handle decode options (StreamEnd i s t1) st1) = Some (Fulfilled r) \<and>
              body r = decode (concat (received i s mid)))"
proof -
  note agg = aggregate_response [OF assms(1-4)]
  then have len: "i < length (responses st1)" and bs: "bodyStream (responses st1 ! i) = s"
    and cnt: "counted (responses st1 ! i)" and ch: "chunks (responses st1 ! i) = received i s mid"
    by blast+
  from end_resolves [OF len bs cnt assms(5), of decode options t1] ch cnt
  show ?thesis by (auto simp: counted_def)
qed

theorem body_is_decoded_concatenation_witness:
  "settled (run utf8_decode no_options
      [ReqResponse plain_message 30, StreamData 0 ResponseStream [0xD1],
       StreamData 0 ResponseStream [0x8F]] new_execution) = None \<and>
   (\<exists>r. settled (handle utf8_decode no_options (StreamEnd 0 ResponseStream 60)
      (run utf8_decode no_options
        [ReqResponse plain_message 30, StreamData 0 ResponseStream [0xD1],
         StreamData 0 ResponseStream [0x8F]] new_execution)) = Some (Fulfilled r) \<and>
      body r = [0x44F])"
proof -
  have i: "0 = length (responses new_execution)" by (simp add: new_execution_def)
  have s: "ResponseStream = select_bodyStream plain_message" by (simp add: eval_defs)
  have ne: "\<And>t. StreamEnd 0 ResponseStream t \<notin>
      set [StreamData 0 ResponseStream [0xD1], StreamData 0 ResponseStream [0x8F]]" by simp
  have p: "settled (run utf8_decode no_options
      [ReqResponse plain_message 30, StreamData 0 ResponseStream [0xD1],
       StreamData 0 ResponseStream [0x8F]] new_execution) = None"
    by (simp add: eval_defs)
  have d: "utf8_decode (concat (received 0 ResponseStream
      [StreamData 0 ResponseStream [0xD1], StreamData 0 ResponseStream [0x8F]])) = [0x44F]"
    by (simp add: eval_defs)
  note inst = body_is_decoded_concatenation [OF i s ne refl p, of 60]
  from inst p show ?thesis unfolding d by blast
qed

section \<open>Settlement\<close>

lemma settled_handle:
  "settled st = Some out \<Longrightarrow> settled (handle decode options ev st) = Some out"
  by (cases ev) (simp_all add: handler_defs)

lemma settled_run:
  "settled st = Some out \<Longrightarrow> settled (run decode options evs st) = Some out"
  by (induction evs arbitrary: st) (simp_all add: settled_handle)

text \<open>
  C1 (as amended). Once the promise has settled, which happens at the first call of
  \<^verbatim>\<open>resolve\<close> or \<^verbatim>\<open>reject\<close>, no later event changes its outcome, and the TimingPhases that
  the outcome carries stay as they are.
\<close>

theorem settled_outcome_is_final:
  assumes "settled st = Some out"
  shows "settled (run decode options evs st) = Some out \<and>
         published_timingPhases (run decode options evs st) = published_timingPhases st"
  using assms by (simp add: settled_run published_timingPhases_def)

theorem settled_outcome_is_final_witness:
  "settled (run utf8_decode timed_options
      [ReqSocket False 10, ReqResponse plain_message 30, StreamData 0 ResponseStream hello,
       StreamEnd 0 ResponseStream 60] new_execution) =
     Some (Fulfilled
       \<lparr>statusCode = 200, headers = Some [], body = [0x68, 0x65, 0x6C, 0x6C, 0x6F],
        request_options = timed_options, timings = Some TimingsRef,
        timingPhases = Some \<lparr>wait = Some 10, dns = Some 0, tcp = Some 0, firstByte = Some 20,
          download = Some 30, total = Some 60\<rparr>\<rparr>) \<and>
   settled (run utf8_decode timed_options [StreamEnd 0 ResponseStream 70, ReadTimeout, ReqError ''socket hang up'']
     (run utf8_decode timed_options
      [ReqSocket False 10, ReqResponse plain_message 30, StreamData 0 ResponseStream hello,
       StreamEnd 0 ResponseStream 60] new_execution)) =
     Some (Fulfilled
       \<lparr>statusCode = 200, headers = Some [], body = [0x68, 0x65, 0x6C, 0x6C, 0x6F],
        request_options = timed_options, timings = Some TimingsRef,
        timingPhases = Some \<lparr>wait = Some 10, dns = Some 0, tcp = Some 0, firstByte = Some 20,
          download = Some 30, total = Some 60\<rparr>\<rparr>)"
proof -
  have h: "settled (run utf8_decode timed_options
      [ReqSocket False 10, ReqResponse plain_message 30, StreamData 0 ResponseStream hello,
       StreamEnd 0 ResponseStream 60] new_execution) =
     Some (Fulfilled
       \<lparr>statusCode = 200, headers = Some [], body = [0x68, 0x65, 0x6C, 0x6C, 0x6F],
        request_options = timed_options, timings = Some TimingsRef,
        timingPhases = Some \<lparr>wait = Some 10, dns = Some 0, tcp = Some 0, firstByte = Some 20,
          download = Some 30, total = Some 60\<rparr>\<rparr>)"
    by (simp add: eval_defs)
  from settled_outcome_is_final [OF h] h show ?thesis by blast
qed

text \<open>
  The handlers have no guard on settlement, and the published result holds the Timings
  object by reference: a second end event after a successful completion overwrites the
  \<open>end\<close> checkpoint that the published response shows.
\<close>

theorem duplicate_end_mutates_published_timings:
  "published_timings (run utf8_decode timed_options
      [ReqSocket False 10, ReqResponse plain_message 30, StreamData 0 ResponseStream hello,
       StreamEnd 0 ResponseStream 60] new_execution) =
     Some \<lparr>lookup = Some 10, socket = Some 10, connect = Some 10, response = Some 30,
       end' = Some 60\<rparr> \<and>
   published_timings (run utf8_decode timed_options
      [ReqSocket False 10, ReqResponse plain_message 30, StreamData 0 ResponseStream hello,
       StreamEnd 0 ResponseStream 60, StreamEnd 0 ResponseStream 70] new_execution) =
     Some \<lparr>lookup = Some 10, socket = Some 10, connect = Some 10, response = Some 30,
       end' = Some 70\<rparr> \<and>
   published_timings (run utf8_decode timed_options
      [ReqSocket False 10, ReqResponse plain_message 30, StreamData 0 ResponseStream hello,
       StreamEnd 0 ResponseStream 60, StreamEnd 0 ResponseStream 70] new_execution) \<noteq>
   published_timings (run utf8_decode timed_options
      [ReqSocket False 10, ReqResponse plain_message 30, StreamData 0 ResponseStream hello,
       StreamEnd 0 ResponseStream 60] new_execution)"
  by (simp add: eval_defs)

section \<open>Connection timeout\<close>

text \<open>
  A connecting socket gets the connection timer, armed with the connection timeout. When
  its callback runs on a pending promise it destroys the socket once, then rejects with
  \<^verbatim>\<open>Could not connect within <timeout> ms to <host>\<close>, and it does not run a second time.
\<close>

lemma connection_timer_armed:
  assumes "socket_listener st"
  shows "connection_timer (handle decode options (ReqSocket True now) st) \<and>
         effects (handle decode options (ReqSocket True now) st) =
           effects st @ [SocketSetTimeout (connectionTimeout options)]"
  using assms by (simp add: handler_defs)

lemma connection_timeout_fires:
  assumes "connection_timer st" and "settled st = None"
    and "st' = handle decode options ConnectionTimeout st"
  shows "effects st' = effects st @
           [SocketDestroy,
            RejectCall (rejection options (connection_timeout_message options) (timings_obj st))] \<and>
         settled st' =
           Some (Rejected (rejection options (connection_timeout_message options) (timings_obj st))) \<and>
         handle decode options ConnectionTimeout st' = st'"
  using assms by (simp add: handler_defs)

text \<open>
  The connect listener (lines 170-175) records the checkpoint and arms the read timer. It
  leaves the callback of the connection timer registered.
\<close>

lemma connect_keeps_connection_timer:
  "connection_timer (handle decode options (SockConnect now) st) = connection_timer st"
  by (simp add: handler_defs)

text \<open>
  C2. The claim is that once the connect event has fired the connection timer can no longer
  cause a connection-timeout fault. In the execution below the socket connects, and the
  callback of the connection timer runs afterwards: the socket is destroyed and the promise
  is rejected with the connection-timeout message.
\<close>

theorem connection_timeout_after_connect:
  "run utf8_decode connecting_options [ReqSocket True 10, SockConnect 60, ConnectionTimeout]
     new_execution =
   new_execution
     \<lparr>settled := Some (Rejected (PlainError ''Could not connect within 100 ms to b.com'')),
      socket_listener := False,
      read_timer := True,
      effects := [SocketSetTimeout 100, RequestSetTimeout 2000, SocketDestroy,
                  RejectCall (PlainError ''Could not connect within 100 ms to b.com'')]\<rparr>"
  by (simp add: eval_defs)

section \<open>Path resolution\<close>

text \<open>
  C7 (as amended). With a pathname and without the key \<^verbatim>\<open>path\<close>, the resolved path is the
  pathname followed by \<^verbatim>\<open>?\<close> and the stringified value of \<^verbatim>\<open>query\<close> whenever the key
  \<^verbatim>\<open>query\<close> is in the options, whatever its value, and the pathname alone when that key
  is not in the options. With the key \<^verbatim>\<open>path\<close> in the options, the path is left as it
  is given, whether or not a pathname is given as well.
\<close>

theorem path_resolution:
  "(pathname options = Present (Some pn) \<and> path options = Absent \<and> query options = Present q \<longrightarrow>
      path (fst (request stringify options)) = Present (Some (pn @ ''?'' @ stringify q))) \<and>
   (pathname options = Present (Some pn) \<and> path options = Absent \<and> query options = Absent \<longrightarrow>
      path (fst (request stringify options)) = Present (Some pn)) \<and>
   (path options = Present p \<longrightarrow> path (fst (request stringify options)) = Present p)"
  by (auto simp: request_def request_options_resolved_def resolve_path_def default_protocol_def
      template_string_def split: property.splits)

theorem path_resolution_witness:
  "path (fst (request stringify_plain
     (no_options\<lparr>pathname := Present (Some ''/foo''), query := Present (Some [(''a'', ''1'')])\<rparr>))) =
     Present (Some ''/foo?a=1'') \<and>
   path (fst (request stringify_plain (no_options\<lparr>pathname := Present (Some ''/foo'')\<rparr>))) =
     Present (Some ''/foo'') \<and>
   path (fst (request stringify_plain
     (no_options\<lparr>pathname := Present (Some ''/foo''), path := Present (Some ''/bar'')\<rparr>))) =
     Present (Some ''/bar'') \<and>
   path (fst (request stringify_plain
     (no_options\<lparr>pathname := Present (Some ''/foo''), path := Present None\<rparr>))) = Present None"
  using path_resolution [of "no_options\<lparr>pathname := Present (Some ''/foo''), query := Present (Some [(''a'', ''1'')])\<rparr>"
      "''/foo''" "Some [(''a'', ''1'')]" stringify_plain "Some ''/bar''"]
    path_resolution [of "no_options\<lparr>pathname := Present (Some ''/foo'')\<rparr>" "''/foo''" None
      stringify_plain "Some ''/bar''"]
    path_resolution [of "no_options\<lparr>pathname := Present (Some ''/foo''), path := Present (Some ''/bar'')\<rparr>"
      "''/foo''" None stringify_plain "Some ''/bar''"]
    path_resolution [of "no_options\<lparr>pathname := Present (Some ''/foo''), path := Present None\<rparr>"
      "''/foo''" None stringify_plain None]
  by (simp add: no_options_def stringify_plain_def)

text \<open>
  The test at line 92 is on the key, not on the value: with \<^verbatim>\<open>query: undefined\<close> no query
  object is given, and the path is still not the pathname alone.
\<close>

theorem undefined_query_appends_question_mark:
  "path (fst (request stringify_plain
     (no_options\<lparr>pathname := Present (Some ''/foo''), query := Present None\<rparr>))) =
     Present (Some ''/foo?'') \<and>
   path (fst (request stringify_plain
     (no_options\<lparr>pathname := Present (Some ''/foo''), query := Present None\<rparr>))) \<noteq>
     Present (Some ''/foo'')"
  by (simp add: request_def request_options_resolved_def resolve_path_def default_protocol_def
      template_string_def no_options_def stringify_plain_def)

text \<open>This holds for every \<open>stringify\<close>.\<close>

lemma query_key_never_gives_pathname_alone:
  assumes "pathname options = Present (Some pn)" and "path options = Absent"
    and "query options \<noteq> Absent"
  shows "path (fst (request stringify options)) \<noteq> Present (Some pn)"
  using assms
  by (auto simp: request_def request_options_resolved_def resolve_path_def default_protocol_def
      template_string_def split: property.splits)

text \<open>
  The earlier revision resolves the same path, except for a query whose string is empty,
  where it leaves the question mark out.
\<close>

lemma resolve_path_prior_agrees:
  assumes "query options = Absent \<or> stringify (read_property (query options)) \<noteq> []"
  shows "resolve_path_prior stringify options = resolve_path stringify options"
  using assms by (auto simp: resolve_path_prior_def resolve_path_def Let_def)

lemma resolve_path_prior_empty_query:
  "path (resolve_path_prior stringify_plain
     (no_options\<lparr>pathname := Present (Some ''/foo''), query := Present (Some [])\<rparr>)) =
     Present (Some ''/foo'') \<and>
   path (resolve_path stringify_plain
     (no_options\<lparr>pathname := Present (Some ''/foo''), query := Present (Some [])\<rparr>)) =
     Present (Some ''/foo?'')"
  by (simp add: resolve_path_prior_def resolve_path_def no_options_def template_string_def
      stringify_plain_def)

text \<open>A protocol key with the value \<^verbatim>\<open>undefined\<close> replaces the default of line 87.\<close>

lemma explicit_undefined_protocol_is_kept:
  "httpRequestFn (fst (request stringify (no_options\<lparr>protocol := Present None\<rparr>))) = HttpRequest \<and>
   httpRequestFn (fst (request stringify no_options)) = HttpsRequest"
  by (simp add: request_def request_options_resolved_def resolve_path_def default_protocol_def
      httpRequestFn_def no_options_def)

section \<open>Status code\<close>

lemma closure_static_handle:
  assumes "i < length (responses st)"
  shows "i < length (responses (handle decode options ev st)) \<and>
         message (responses (handle decode options ev st) ! i) = message (responses st ! i) \<and>
         bodyStream (responses (handle decode options ev st) ! i) = bodyStream (responses st ! i)"
  using assms by (cases ev) (auto simp: handler_defs nth_append nth_list_update)

lemma closure_static_run:
  assumes "i < length (responses st)"
  shows "i < length (responses (run decode options evs st)) \<and>
         message (responses (run decode options evs st) ! i) = message (responses st ! i) \<and>
         bodyStream (responses (run decode options evs st) ! i) = bodyStream (responses st ! i)"
  using assms
proof (induction evs arbitrary: st)
  case Nil
  then show ?case by simp
next
  case (Cons ev evs)
  note step = closure_static_handle [OF Cons.prems, of decode options ev]
  then have "i < length (responses (handle decode options ev st))" by blast
  from Cons.IH [OF this] step show ?case by simp
qed

lemma end_status:
  assumes "i < length (responses st)"
    and "bodyStream (responses st ! i) = s"
    and "settled st = None"
  shows "\<exists>r. settled (handle decode options (StreamEnd i s now) st) = Some (Fulfilled r) \<and>
             statusCode r = statusCode_or_0 (msg_statusCode (message (responses st ! i)))"
  using assms by (simp add: handler_defs)

text \<open>
  C10. When the body stream of a response ends and the promise is still pending, the
  ServiceClientResponse the promise is fulfilled with has the status code of the response,
  and 0 when the response has none (undefined) or a falsy one. The field is a number in
  every case.
\<close>

theorem missing_statusCode_is_0:
  assumes "i = length (responses st0)"
    and "s = select_bodyStream msg"
    and "st1 = run decode options (ReqResponse msg t0 # mid) st0"
    and "settled st1 = None"
  shows "\<exists>r. settled (handle decode options (StreamEnd i s t1) st1) = Some (Fulfilled r) \<and>
             statusCode r = (case msg_statusCode msg of None \<Rightarrow> 0 | Some n \<Rightarrow> n) \<and>
             (msg_statusCode msg = None \<or> msg_statusCode msg = Some 0 \<longrightarrow> statusCode r = 0)"
proof -
  let ?st = "handle decode options (ReqResponse msg t0) st0"
  note new = response_closure_new [of decode options msg t0 st0]
  have len0: "i < length (responses ?st)" using new assms(1) by simp
  have st1: "st1 = run decode options mid ?st" using assms(3) by simp
  note static = closure_static_run [OF len0, of decode options mid]
  have len: "i < length (responses st1)" using static st1 by simp
  have bs: "bodyStream (responses st1 ! i) = s" using static st1 new assms(1,2) by simp
  have msg: "message (responses st1 ! i) = msg" using static st1 new assms(1) by simp
  from end_status [OF len bs assms(4), of decode options t1] msg
  show ?thesis by (auto simp: statusCode_or_0_def split: option.splits)
qed

theorem missing_statusCode_is_0_witness:
  "settled (run utf8_decode no_options [ReqResponse bare_message 30, StreamData 0 ResponseStream hello] new_execution) = None \<and>
   (\<exists>r. settled (handle utf8_decode no_options (StreamEnd 0 ResponseStream 60)
           (run utf8_decode no_options [ReqResponse bare_message 30, StreamData 0 ResponseStream hello] new_execution)) = Some (Fulfilled r) \<and>
        statusCode r = 0)"
proof -
  have i: "0 = length (responses new_execution)" by (simp add: new_execution_def)
  have s: "ResponseStream = select_bodyStream bare_message" by (simp add: eval_defs)
  have p: "settled (run utf8_decode no_options [ReqResponse bare_message 30, StreamData 0 ResponseStream hello] new_execution) = None"
    by (simp add: eval_defs)
  have sc: "msg_statusCode bare_message = None" by (simp add: bare_message_def)
  from missing_statusCode_is_0 [OF i s refl p, of 60] sc p show ?thesis by auto
qed

section \<open>Content encoding\<close>

lemma data_events_received: "received i s (map (StreamData i s) cs) = cs"
  by (induction cs) simp_all

lemma data_events_no_end: "StreamEnd i s t \<notin> set (map (StreamData j s') cs)"
  by (induction cs) simp_all

lemma data_event_keeps:
  "settled (handle decode options (StreamData i s d) st) = settled st \<and>
   timings_obj (handle decode options (StreamData i s d) st) = timings_obj st"
  by (simp add: handler_defs)

lemma data_events_keep:
  "settled (run decode options (map (StreamData i s) cs) st) = settled st \<and>
   timings_obj (run decode options (map (StreamData i s) cs) st) = timings_obj st"
  by (induction cs arbitrary: st) (simp_all add: data_event_keeps del: handle.simps)

lemma other_stream_ignored:
  assumes "i < length (responses st)" and "bodyStream (responses st ! i) \<noteq> s"
  shows "run decode options (map (StreamData i s) cs) st = st"
  using assms by (induction cs) simp_all

lemma data_then_end:
  assumes "i < length (responses st)"
    and "bodyStream (responses st ! i) = s"
    and "chunks (responses st ! i) = []" and "bufferLength (responses st ! i) = 0"
    and "settled st = None"
  shows "\<exists>r. settled (run decode options (map (StreamData i s) cs @ [StreamEnd i s now]) st) =
               Some (Fulfilled r) \<and> body r = decode (concat cs)"
proof -
  let ?st = "run decode options (map (StreamData i s) cs) st"
  have cnt: "counted (responses st ! i)" using assms(3,4) by (simp add: counted_def)
  note agg = aggregate [where evs = "map (StreamData i s) cs" and decode = decode and options = options,
      OF assms(1,2) cnt data_events_no_end]
  then have len: "i < length (responses ?st)" and bs: "bodyStream (responses ?st ! i) = s"
    and cnt': "counted (responses ?st ! i)" and ch: "chunks (responses ?st ! i) = cs"
    using assms(3) by (simp_all add: data_events_received)
  have pend: "settled ?st = None" using assms(5) by (simp add: data_events_keep)
  from end_resolves [OF len bs cnt' pend, of decode options now] ch
  show ?thesis by (auto simp: run_snoc simp del: handle.simps)
qed

lemma data_then_error:
  assumes "i < length (responses st)"
    and "s = ResponseStream \<or> bodyStream (responses st ! i) = UnzipStream"
    and "settled st = None"
  shows "settled (run decode options (map (StreamData i s') cs @ [StreamError i s error]) st) =
         Some (Rejected (rejection options error (timings_obj st)))"
proof -
  let ?st = "run decode options (map (StreamData i s') cs) st"
  note static = closure_static_run [OF assms(1), of decode options "map (StreamData i s') cs"]
  have keep: "settled ?st = None" "timings_obj ?st = timings_obj st"
    using assms(3) by (simp_all add: data_events_keep)
  have "handle decode options (StreamError i s error) ?st = reject options error ?st"
    using static assms(2) by auto
  then show ?thesis using keep
    by (simp add: run_snoc reject_def originalReject_def del: handle.simps)
qed

text \<open>
  C6. The response handler hands the unzip stream to the aggregation exactly when the
  content-encoding header is \<^verbatim>\<open>gzip\<close> or \<^verbatim>\<open>deflate\<close>, and the response itself in every other
  case. In the first case the compressed chunks of the response do not reach the
  aggregation; the body of the result is the decoding of what the decoder emits, so the
  plaintext when the decoder emits the plaintext; and an error of the decoder takes the
  same path as a transport error (the same call of \<^verbatim>\<open>reject\<close>) and rejects the promise,
  whatever the decoder emitted before. In the second case the body is the decoding of
  the chunks of the response as they are.
\<close>

theorem content_encoding_dispatch:
  assumes "settled st0 = None"
    and "i = length (responses st0)"
    and "st1 = handle decode options (ReqResponse msg t0) st0"
  shows "bodyStream (responses st1 ! i) =
           (if content_encoding msg = Some ''gzip'' \<or> content_encoding msg = Some ''deflate''
            then UnzipStream else ResponseStream) \<and>
         (content_encoding msg = Some ''gzip'' \<or> content_encoding msg = Some ''deflate'' \<longrightarrow>
            run decode options (map (StreamData i ResponseStream) compressed) st1 = st1 \<and>
            (\<exists>r. settled (run decode options
                     (map (StreamData i UnzipStream) plain @ [StreamEnd i UnzipStream t1]) st1) =
                   Some (Fulfilled r) \<and> body r = decode (concat plain)) \<and>
            handle decode options (StreamError i UnzipStream error) st1 =
              handle decode options (ReqError error) st1 \<and>
            settled (run decode options
                     (map (StreamData i UnzipStream) plain @ [StreamError i UnzipStream error]) st1) =
              Some (Rejected (rejection options error (timings_obj st1)))) \<and>
         (content_encoding msg \<noteq> Some ''gzip'' \<and> content_encoding msg \<noteq> Some ''deflate'' \<longrightarrow>
            (\<exists>r. settled (run decode options
                     (map (StreamData i ResponseStream) raw @ [StreamEnd i ResponseStream t1]) st1) =
                   Some (Fulfilled r) \<and> body r = decode (concat raw)))"
proof -
  note new = response_closure_new [of decode options msg t0 st0]
  have len: "i < length (responses st1)" using new assms(2,3) by simp
  have cl: "responses st1 ! i =
      \<lparr>message = msg, bodyStream = select_bodyStream msg, chunks = [], bufferLength = 0\<rparr>"
    using new assms(2,3) by simp
  have pend: "settled st1 = None" using assms(1,3) by (simp add: handler_defs)
  have bs: "bodyStream (responses st1 ! i) = select_bodyStream msg" using cl by simp
  have empty: "chunks (responses st1 ! i) = []" "bufferLength (responses st1 ! i) = 0"
    using cl by simp_all
  have sel: "bodyStream (responses st1 ! i) =
           (if content_encoding msg = Some ''gzip'' \<or> content_encoding msg = Some ''deflate''
            then UnzipStream else ResponseStream)"
    using bs by (simp add: select_bodyStream_def)
  have unz: "run decode options (map (StreamData i ResponseStream) compressed) st1 = st1 \<and>
            (\<exists>r. settled (run decode options
                     (map (StreamData i UnzipStream) plain @ [StreamEnd i UnzipStream t1]) st1) =
                   Some (Fulfilled r) \<and> body r = decode (concat plain)) \<and>
            handle decode options (StreamError i UnzipStream error) st1 =
              handle decode options (ReqError error) st1 \<and>
            settled (run decode options
                     (map (StreamData i UnzipStream) plain @ [StreamError i UnzipStream error]) st1) =
              Some (Rejected (rejection options error (timings_obj st1)))"
    if u: "bodyStream (responses st1 ! i) = UnzipStream"
  proof -
    have a: "run decode options (map (StreamData i ResponseStream) compressed) st1 = st1"
      by (rule other_stream_ignored [OF len]) (simp add: u)
    note b = data_then_end [OF len u empty pend, of decode options plain t1]
    have c: "handle decode options (StreamError i UnzipStream error) st1 =
              handle decode options (ReqError error) st1"
      using len u by simp
    have d: "settled (run decode options
                     (map (StreamData i UnzipStream) plain @ [StreamError i UnzipStream error]) st1) =
              Some (Rejected (rejection options error (timings_obj st1)))"
      by (rule data_then_error [OF len _ pend]) (simp add: u)
    from a b c d show ?thesis by blast
  qed
  have raw: "\<exists>r. settled (run decode options
                     (map (StreamData i ResponseStream) raw @ [StreamEnd i ResponseStream t1]) st1) =
                   Some (Fulfilled r) \<and> body r = decode (concat raw)"
    if u: "bodyStream (responses st1 ! i) = ResponseStream"
    by (rule data_then_end [OF len u empty pend])
  show ?thesis
    using sel unz raw by (auto simp del: handle.simps run.simps)
qed

theorem content_encoding_dispatch_witness:
  "bodyStream (responses (handle utf8_decode no_options (ReqResponse gzip_message 30) new_execution) ! 0) =
     UnzipStream \<and>
   (\<exists>r. settled (run utf8_decode no_options
        (map (StreamData 0 UnzipStream) [hello] @ [StreamEnd 0 UnzipStream 60])
        (handle utf8_decode no_options (ReqResponse gzip_message 30) new_execution)) =
      Some (Fulfilled r) \<and> body r = [0x68, 0x65, 0x6C, 0x6C, 0x6F]) \<and>
   settled (run utf8_decode no_options
        (map (StreamData 0 UnzipStream) [] @ [StreamError 0 UnzipStream ''incorrect header check''])
        (handle utf8_decode no_options (ReqResponse gzip_message 30) new_execution)) =
      Some (Rejected (PlainError ''incorrect header check'')) \<and>
   bodyStream (responses (handle utf8_decode no_options (ReqResponse plain_message 30) new_execution) ! 0) =
     ResponseStream"
proof -
  have p: "settled new_execution = None" by (simp add: new_execution_def)
  have i: "0 = length (responses new_execution)" by (simp add: new_execution_def)
  have g: "content_encoding gzip_message = Some ''gzip''" by (simp add: eval_defs)
  have n: "content_encoding plain_message = None" by (simp add: eval_defs)
  have d: "utf8_decode (concat [hello]) = [0x68, 0x65, 0x6C, 0x6C, 0x6F]" by (simp add: eval_defs)
  have r: "rejection no_options ''incorrect header check''
      (timings_obj (handle utf8_decode no_options (ReqResponse gzip_message 30) new_execution)) =
      PlainError ''incorrect header check''"
    by (simp add: rejection_def no_options_def)
  note z = content_encoding_dispatch [OF p i refl, of utf8_decode no_options gzip_message 30
      _ "[hello]" 60 "''incorrect header check''"]
  note z' = content_encoding_dispatch [OF p i refl, of utf8_decode no_options gzip_message 30
      _ "[]" 60 "''incorrect header check''"]
  note y = content_encoding_dispatch [OF p i refl, of utf8_decode no_options plain_message 30]
  from z z' y show ?thesis
    unfolding g n d r by (simp del: handle.simps run.simps)
qed

end
